theory Spec2Isabelle
  imports Main
begin

section \<open>The send-email edge function\<close>

text \<open>
  The function served by \<^verbatim>\<open>serve(async (req) => ...)\<close> talks to three collaborators:
  the identity provider (\<^verbatim>\<open>supabaseUser.auth.getUser()\<close>), the database
  (tables \<^verbatim>\<open>smtp_configs\<close> and \<^verbatim>\<open>sent_emails\<close>) and the mail server
  (\<^verbatim>\<open>SMTPClient\<close>). The model takes their answers from an environment, and
  returns, next to the HTTP response, the list of the calls made, in order.
  JavaScript strings are modelled as \<^typ>\<open>string\<close>; a value that may be
  \<^verbatim>\<open>undefined\<close> or \<^verbatim>\<open>null\<close> is an \<^typ>\<open>'a option\<close>; a thrown error is its
  \<^verbatim>\<open>message\<close>.
\<close>

subsection \<open>Data\<close>

text \<open>The interface \<^verbatim>\<open>SendEmailRequest\<close>; at run time every field may be missing.\<close>

record send_email_request =
  smtp_config_id :: "string option"
  to :: "string list option"
  cc :: "string list option"
  bcc :: "string list option"
  subject :: "string option"
  body :: "string option"
  is_html :: "bool option"

text \<open>
  The request: its method, its \<^verbatim>\<open>Authorization\<close> header, and what
  \<^verbatim>\<open>req.json()\<close> gives: the parsed body, or the message of the error it throws.
\<close>

record request =
  http_method :: string
  authorization :: "string option"
  json :: "string + send_email_request"

text \<open>The user the identity provider resolves; only \<^verbatim>\<open>user.id\<close> is read.\<close>

record auth_user =
  uid :: string

text \<open>A row of \<^verbatim>\<open>smtp_configs\<close>.\<close>

record smtp_config =
  cfg_id :: string
  cfg_user_id :: string
  config_name :: string
  smtp_host :: string
  smtp_port :: nat
  smtp_username :: string
  smtp_password :: string
  from_email :: string
  from_name :: "string option"
  use_tls :: bool
  is_default :: bool

text \<open>The options given to \<^verbatim>\<open>new SMTPClient\<close>.\<close>

record connection =
  hostname :: string
  port :: nat
  tls :: bool
  username :: string
  password :: string

text \<open>The object \<^verbatim>\<open>emailContent\<close> handed to \<^verbatim>\<open>client.send\<close>.\<close>

record email_content =
  ec_from :: string
  ec_to :: "string list"
  ec_subject :: string
  ec_cc :: "string list option"
  ec_bcc :: "string list option"
  ec_html :: "string option"
  ec_content :: "string option"

text \<open>
  The object inserted into \<^verbatim>\<open>sent_emails\<close>. The failure path copies the fields of
  the body as they are, so each may be missing there.
\<close>

record sent_email =
  user_id :: string
  rec_smtp_config_id :: "string option"
  to_emails :: "string list option"
  cc_emails :: "string list option"
  bcc_emails :: "string list option"
  rec_subject :: "string option"
  rec_body :: "string option"
  rec_is_html :: bool
  status :: string
  error_message :: "string option"

text \<open>The JSON object of a response, and the response.\<close>

record json_body =
  success :: bool
  message :: "string option"
  error :: "string option"

record response =
  http_status :: nat
  headers :: "(string \<times> string) list"
  payload :: "json_body option"

text \<open>
  The calls the handler makes. A call to the mail server or an insertion carries its
  outcome: \<open>None\<close> when it went through, \<open>Some msg\<close> with the error otherwise.
\<close>

datatype effect =
    AuthGetUser string
  | ReadJson
  | SelectConfig string string
  | SmtpOpen connection
  | SmtpSend connection email_content "string option"
  | SmtpClose connection "string option"
  | InsertSentEmail sent_email "string option"
  | CloneJson

text \<open>
  The environment of one call.
  \<^item> \<open>getUser\<close>: what the identity provider answers for an \<^verbatim>\<open>Authorization\<close>
    header, an error or a user;
  \<^item> \<open>smtp_configs\<close>: the rows of the table;
  \<^item> \<open>smtp_send\<close>, \<open>smtp_close\<close>: the error \<^verbatim>\<open>client.send\<close> and
    \<^verbatim>\<open>client.close\<close> throw, if any;
  \<^item> \<open>insert_sent_email\<close>: the \<^verbatim>\<open>error\<close> the insertion returns, if any.
\<close>

record env =
  getUser :: "string \<Rightarrow> string + auth_user"
  smtp_configs :: "smtp_config list"
  smtp_send :: "connection \<Rightarrow> email_content \<Rightarrow> string option"
  smtp_close :: "connection \<Rightarrow> string option"
  insert_sent_email :: "sent_email \<Rightarrow> string option"

subsection \<open>Responses\<close>

definition corsHeaders :: "(string \<times> string) list" where
  "corsHeaders =
     [(''Access-Control-Allow-Origin'', ''*''),
      (''Access-Control-Allow-Headers'', ''authorization, x-client-info, apikey, content-type'')]"

definition json_response :: "nat \<Rightarrow> json_body \<Rightarrow> response" where
  "json_response st b =
     \<lparr>http_status = st, headers = corsHeaders @ [(''Content-Type'', ''application/json'')],
      payload = Some b\<rparr>"

definition failure :: "string \<Rightarrow> json_body" where
  "failure msg = \<lparr>success = False, message = None, error = Some msg\<rparr>"

definition preflight :: response where
  "preflight = \<lparr>http_status = 200, headers = corsHeaders, payload = None\<rparr>"

definition sent_ok :: response where
  "sent_ok = json_response 200
     \<lparr>success = True, message = Some ''Email sent successfully'', error = None\<rparr>"

subsection \<open>The steps of the handler\<close>

text \<open>
  \<^verbatim>\<open>!smtp_config_id || !to || to.length === 0 || !subject || !body\<close>: a string is falsy
  when missing or empty, an array only when missing. The result is the four values
  when the test lets the request through.
\<close>

definition required_fields ::
  "send_email_request \<Rightarrow> (string \<times> string list \<times> string \<times> string) option" where
  "required_fields r =
     (case (smtp_config_id r, to r, subject r, body r) of
        (Some i, Some t, Some s, Some b) \<Rightarrow>
          if i = [] \<or> t = [] \<or> s = [] \<or> b = [] then None else Some (i, t, s, b)
      | _ \<Rightarrow> None)"

text \<open>
  \<^verbatim>\<open>.from("smtp_configs").select("*").eq("id", ..).eq("user_id", ..).single()\<close>:
  the row when exactly one matches, an error otherwise.
\<close>

definition select_single :: "smtp_config list \<Rightarrow> string \<Rightarrow> string \<Rightarrow> string + smtp_config" where
  "select_single rows i u =
     (case filter (\<lambda>c. cfg_id c = i \<and> cfg_user_id c = u) rows of
        [c] \<Rightarrow> Inr c
      | _ \<Rightarrow> Inl ''JSON object requested, multiple (or no) rows returned'')"

definition client_options :: "smtp_config \<Rightarrow> connection" where
  "client_options c =
     \<lparr>hostname = smtp_host c, port = smtp_port c, tls = use_tls c,
      username = smtp_username c, password = smtp_password c\<rparr>"

text \<open>\<^verbatim>\<open>smtpConfig.from_name ? `${from_name} <${from_email}>` : from_email\<close>\<close>

definition fromAddress :: "smtp_config \<Rightarrow> string" where
  "fromAddress c =
     (case from_name c of
        None \<Rightarrow> from_email c
      | Some n \<Rightarrow> if n = [] then from_email c else n @ '' <'' @ from_email c @ ''>'')"

text \<open>\<^verbatim>\<open>if (cc && cc.length > 0) emailContent.cc = cc\<close>: set only for a non-empty array.\<close>

definition non_empty :: "string list option \<Rightarrow> string list option" where
  "non_empty xs = (case xs of None \<Rightarrow> None | Some l \<Rightarrow> if length l > 0 then Some l else None)"

text \<open>\<^verbatim>\<open>cc || null\<close>: an array, even an empty one, is truthy, so only a missing value becomes null.\<close>

definition or_null :: "string list option \<Rightarrow> string list option" where
  "or_null xs = (case xs of None \<Rightarrow> None | Some l \<Rightarrow> Some l)"

text \<open>
  The default \<^verbatim>\<open>is_html = false\<close> of the destructuring, and \<^verbatim>\<open>body.is_html || false\<close>
  of the failure path: both give false for a missing value.
\<close>

definition or_false :: "bool option \<Rightarrow> bool" where
  "or_false h = (case h of None \<Rightarrow> False | Some v \<Rightarrow> v)"

definition emailContent ::
  "smtp_config \<Rightarrow> send_email_request \<Rightarrow> string list \<Rightarrow> string \<Rightarrow> string \<Rightarrow> bool \<Rightarrow> email_content" where
  "emailContent c r t s b html =
     \<lparr>ec_from = fromAddress c, ec_to = t, ec_subject = s,
      ec_cc = non_empty (cc r), ec_bcc = non_empty (bcc r),
      ec_html = (if html then Some b else None),
      ec_content = (if html then None else Some b)\<rparr>"

definition sent_record ::
  "auth_user \<Rightarrow> send_email_request \<Rightarrow> string \<Rightarrow> string list \<Rightarrow> string \<Rightarrow> string \<Rightarrow> bool \<Rightarrow> sent_email" where
  "sent_record u r i t s b html =
     \<lparr>user_id = uid u, rec_smtp_config_id = Some i, to_emails = Some t,
      cc_emails = or_null (cc r), bcc_emails = or_null (bcc r),
      rec_subject = Some s, rec_body = Some b, rec_is_html = html,
      status = ''sent'', error_message = None\<rparr>"

definition failed_record :: "auth_user \<Rightarrow> send_email_request \<Rightarrow> string \<Rightarrow> sent_email" where
  "failed_record u r msg =
     \<lparr>user_id = uid u, rec_smtp_config_id = smtp_config_id r, to_emails = to r,
      cc_emails = or_null (cc r), bcc_emails = or_null (bcc r),
      rec_subject = subject r, rec_body = body r,
      rec_is_html = or_false (is_html r),
      status = ''failed'', error_message = Some msg\<rparr>"

text \<open>
  From \<^verbatim>\<open>new SMTPClient\<close> to the insertion into \<^verbatim>\<open>sent_emails\<close>. The client
  connects when it is built. An error thrown by \<^verbatim>\<open>send\<close> or \<^verbatim>\<open>close\<close> leaves
  the block at once (\<open>Inl\<close>); the error of the insertion is logged and nothing else.
\<close>

definition deliver ::
  "env \<Rightarrow> auth_user \<Rightarrow> send_email_request \<Rightarrow> smtp_config \<Rightarrow>
   string \<Rightarrow> string list \<Rightarrow> string \<Rightarrow> string \<Rightarrow> effect list \<times> (string + response)" where
  "deliver e u r c i t s b =
     (let client = client_options c;
          html = or_false (is_html r);
          content = emailContent c r t s b html
      in case smtp_send e client content of
           Some msg \<Rightarrow> ([SmtpOpen client, SmtpSend client content (Some msg)], Inl msg)
         | None \<Rightarrow>
            (case smtp_close e client of
               Some msg \<Rightarrow>
                 ([SmtpOpen client, SmtpSend client content None, SmtpClose client (Some msg)],
                  Inl msg)
             | None \<Rightarrow>
                 (let row = sent_record u r i t s b html;
                      insertError = insert_sent_email e row
                  in ([SmtpOpen client, SmtpSend client content None, SmtpClose client None,
                       InsertSentEmail row insertError],
                      Inr sent_ok))))"

text \<open>The \<^verbatim>\<open>try\<close> block: the calls made, and the response returned or the error thrown.\<close>

definition try_block :: "env \<Rightarrow> request \<Rightarrow> effect list \<times> (string + response)" where
  "try_block e req =
     (case authorization req of
        None \<Rightarrow> ([], Inr (json_response 401 (failure ''Missing authorization header'')))
      | Some authHeader \<Rightarrow>
          if authHeader = [] then
            ([], Inr (json_response 401 (failure ''Missing authorization header'')))
          else
            (case getUser e authHeader of
               Inl userError \<Rightarrow>
                 ([AuthGetUser authHeader], Inr (json_response 401 (failure ''Unauthorized'')))
             | Inr u \<Rightarrow>
                 (case json req of
                    Inl msg \<Rightarrow> ([AuthGetUser authHeader, ReadJson], Inl msg)
                  | Inr r \<Rightarrow>
                      (case required_fields r of
                         None \<Rightarrow>
                           ([AuthGetUser authHeader, ReadJson],
                            Inr (json_response 400 (failure ''Missing required fields'')))
                       | Some (i, t, s, b) \<Rightarrow>
                           (case select_single (smtp_configs e) i (uid u) of
                              Inl configError \<Rightarrow>
                                ([AuthGetUser authHeader, ReadJson, SelectConfig i (uid u)],
                                 Inr (json_response 404 (failure ''SMTP configuration not found'')))
                            | Inr c \<Rightarrow>
                                (let (tr, res) = deliver e u r c i t s b
                                 in ([AuthGetUser authHeader, ReadJson, SelectConfig i (uid u)] @ tr,
                                     res)))))))"

text \<open>
  \<^verbatim>\<open>req.clone().json()\<close> in the \<^verbatim>\<open>catch\<close> block; \<open>used\<close> says whether
  \<^verbatim>\<open>req.json()\<close> has already read the body. A request whose body has been read
  cannot be cloned: \<^verbatim>\<open>req.clone()\<close> throws a \<^verbatim>\<open>TypeError\<close>. Otherwise the clone
  is parsed as the request itself would be.
\<close>

definition clone_json :: "request \<Rightarrow> bool \<Rightarrow> string + send_email_request" where
  "clone_json req used = (if used then Inl ''Body is unusable'' else json req)"

text \<open>
  The inner \<^verbatim>\<open>try\<close> of the \<^verbatim>\<open>catch\<close> block: the user is resolved again, and
  when there is one the body is read from a clone of the request and a row with status
  \<^verbatim>\<open>failed\<close> is inserted. Whatever is thrown here is logged and dropped. \<open>msg\<close> is
  the message of the error caught, \<open>used\<close> whether the body had been read when it
  was thrown.
\<close>

definition save_failed :: "env \<Rightarrow> request \<Rightarrow> string \<Rightarrow> bool \<Rightarrow> effect list" where
  "save_failed e req msg used =
     (case authorization req of
        None \<Rightarrow> []
      | Some authHeader \<Rightarrow>
          if authHeader = [] then []
          else
            (case getUser e authHeader of
               Inl _ \<Rightarrow> [AuthGetUser authHeader]
             | Inr u \<Rightarrow>
                 (case clone_json req used of
                    Inl _ \<Rightarrow> [AuthGetUser authHeader, CloneJson]
                  | Inr r \<Rightarrow>
                      [AuthGetUser authHeader, CloneJson,
                       InsertSentEmail (failed_record u r msg)
                         (insert_sent_email e (failed_record u r msg))])))"

text \<open>\<^verbatim>\<open>error.message || "Failed to send email"\<close>, with status 500.\<close>

definition error_response :: "string \<Rightarrow> response" where
  "error_response msg =
     json_response 500 (failure (if msg = [] then ''Failed to send email'' else msg))"

text \<open>The handler: the calls made, in order, and the response.\<close>

definition serve :: "env \<Rightarrow> request \<Rightarrow> effect list \<times> response" where
  "serve e req =
     (if http_method req = ''OPTIONS'' then ([], preflight)
      else
        (case try_block e req of
           (tr, Inr resp) \<Rightarrow> (tr, resp)
         | (tr, Inl msg) \<Rightarrow>
             (tr @ save_failed e req msg (ReadJson \<in> set tr), error_response msg)))"

definition effects :: "env \<Rightarrow> request \<Rightarrow> effect list" where
  "effects e req = fst (serve e req)"

definition respond :: "env \<Rightarrow> request \<Rightarrow> response" where
  "respond e req = snd (serve e req)"

subsection \<open>Reading the list of calls\<close>

fun is_open :: "effect \<Rightarrow> bool" where
  "is_open (SmtpOpen _) = True"
| "is_open _ = False"

fun is_send :: "effect \<Rightarrow> bool" where
  "is_send (SmtpSend _ _ _) = True"
| "is_send _ = False"

fun is_close :: "effect \<Rightarrow> bool" where
  "is_close (SmtpClose _ _) = True"
| "is_close _ = False"

fun is_insert :: "effect \<Rightarrow> bool" where
  "is_insert (InsertSentEmail _ _) = True"
| "is_insert _ = False"

text \<open>Any contact with the mail server.\<close>

definition is_smtp :: "effect \<Rightarrow> bool" where
  "is_smtp x = (is_open x \<or> is_send x \<or> is_close x)"

section \<open>The compose form\<close>

text \<open>
  \<^verbatim>\<open>handleSend\<close> of \<^verbatim>\<open>ComposeEmail\<close>, up to the call of
  \<^verbatim>\<open>supabase.functions.invoke('send-email', ..)\<close>. The schema
  \<^verbatim>\<open>z.string().email(..)\<close> comes from a library; the model takes the test it
  makes as the parameter \<open>ok\<close>.
\<close>

text \<open>
  The white space and line terminators \<^verbatim>\<open>String.prototype.trim\<close> removes, among the
  characters a \<^typ>\<open>char\<close> can hold.
\<close>

definition js_space :: "char \<Rightarrow> bool" where
  "js_space c = (c \<in> set [CHR 0x09, CHR 0x0A, CHR 0x0B, CHR 0x0C, CHR 0x0D, CHR 0x20, CHR 0xA0])"

definition trim :: "string \<Rightarrow> string" where
  "trim s = rev (dropWhile js_space (rev (dropWhile js_space s)))"

text \<open>\<^verbatim>\<open>input.split(sep)\<close> for a separator of one character; the result is never empty.\<close>

fun js_split :: "char \<Rightarrow> string \<Rightarrow> string list" where
  "js_split sep [] = [[]]"
| "js_split sep (x # xs) =
     (if x = sep then [] # js_split sep xs
      else (case js_split sep xs of
              [] \<Rightarrow> [[x]]
            | y # ys \<Rightarrow> (x # y) # ys))"

definition parseEmails :: "string \<Rightarrow> string list" where
  "parseEmails input =
     (if trim input = [] then []
      else filter (\<lambda>e. e \<noteq> []) (map trim (js_split CHR '','' input)))"

text \<open>A destructive toast: its title and its description.\<close>

datatype toast = Toast string string

text \<open>
  \<^verbatim>\<open>validateEmails\<close>: \<open>None\<close> when it returns true; the toast it shows when it
  returns false, at the first address that does not pass.
\<close>

fun validateEmails :: "(string \<Rightarrow> bool) \<Rightarrow> string list \<Rightarrow> toast option" where
  "validateEmails ok [] = None"
| "validateEmails ok (email # emails) =
     (if \<not> ok email then
        Some (Toast ''Invalid Email''
               (CHR 0x22 # email @ CHR 0x22 # '' is not a valid email address.''))
      else validateEmails ok emails)"

text \<open>What a click on Send does: a toast and nothing else, or the call of the function.\<close>

datatype submission = Rejected toast | Invoke send_email_request

definition handleSend ::
  "(string \<Rightarrow> bool) \<Rightarrow> string \<Rightarrow> string \<Rightarrow> string \<Rightarrow> string \<Rightarrow> string \<Rightarrow> string \<Rightarrow> submission" where
  "handleSend ok selectedConfig to_text cc_text bcc_text subject_text body_text =
     (if selectedConfig = [] then
        Rejected (Toast ''No SMTP Configuration'' ''Please configure your SMTP settings first.'')
      else
        (let toEmails = parseEmails to_text;
             ccEmails = parseEmails cc_text;
             bccEmails = parseEmails bcc_text
         in if length toEmails = 0 then
              Rejected (Toast ''Missing Recipient'' ''Please enter at least one recipient.'')
            else
              (case validateEmails ok (toEmails @ ccEmails @ bccEmails) of
                 Some t \<Rightarrow> Rejected t
               | None \<Rightarrow>
                   if trim subject_text = [] then
                     Rejected (Toast ''Missing Subject'' ''Please enter an email subject.'')
                   else
                     Invoke
                       \<lparr>smtp_config_id = Some selectedConfig,
                        to = Some toEmails,
                        cc = (if length ccEmails > 0 then Some ccEmails else None),
                        bcc = (if length bccEmails > 0 then Some bccEmails else None),
                        subject = Some (trim subject_text),
                        body = Some (trim body_text),
                        is_html = Some False\<rparr>)))"

section \<open>Concrete calls\<close>

text \<open>Two users, one configuration each, and a mail server that accepts everything.\<close>

definition alice :: auth_user where
  "alice = \<lparr>uid = ''user-alice''\<rparr>"

definition bob :: auth_user where
  "bob = \<lparr>uid = ''user-bob''\<rparr>"

definition alice_config :: smtp_config where
  "alice_config =
     \<lparr>cfg_id = ''cfg-alice'', cfg_user_id = ''user-alice'', config_name = ''Work'',
      smtp_host = ''smtp.example.com'', smtp_port = 587, smtp_username = ''alice'',
      smtp_password = ''alice-secret'', from_email = ''alice@example.com'',
      from_name = Some ''Alice'', use_tls = True, is_default = True\<rparr>"

definition bob_config :: smtp_config where
  "bob_config =
     \<lparr>cfg_id = ''cfg-bob'', cfg_user_id = ''user-bob'', config_name = ''Home'',
      smtp_host = ''mail.example.org'', smtp_port = 465, smtp_username = ''bob'',
      smtp_password = ''bob-secret'', from_email = ''bob@example.org'',
      from_name = None, use_tls = True, is_default = False\<rparr>"

definition resolve :: "string \<Rightarrow> string + auth_user" where
  "resolve h =
     (if h = ''Bearer alice-token'' then Inr alice
      else if h = ''Bearer bob-token'' then Inr bob
      else Inl ''invalid JWT'')"

definition env_ok :: env where
  "env_ok =
     \<lparr>getUser = resolve, smtp_configs = [alice_config, bob_config],
      smtp_send = (\<lambda>_ _. None), smtp_close = (\<lambda>_. None),
      insert_sent_email = (\<lambda>_. None)\<rparr>"

text \<open>The mail server refuses the connection.\<close>

definition env_refused :: env where
  "env_refused = env_ok\<lparr>smtp_send := (\<lambda>_ _. Some ''connection refused'')\<rparr>"

text \<open>The table \<^verbatim>\<open>sent_emails\<close> cannot be written.\<close>

definition env_no_history :: env where
  "env_no_history = env_ok\<lparr>insert_sent_email := (\<lambda>_. Some ''permission denied'')\<rparr>"

text \<open>Scenario A of the specification, and variations of it.\<close>

definition hello :: send_email_request where
  "hello =
     \<lparr>smtp_config_id = Some ''cfg-alice'', to = Some [''a@x.com''], cc = None, bcc = None,
      subject = Some ''Hi'', body = Some ''Hello'', is_html = None\<rparr>"

definition post_as_alice :: "send_email_request \<Rightarrow> request" where
  "post_as_alice r =
     \<lparr>http_method = ''POST'', authorization = Some ''Bearer alice-token'', json = Inr r\<rparr>"

definition alice_client :: connection where
  "alice_client =
     \<lparr>hostname = ''smtp.example.com'', port = 587, tls = True, username = ''alice'',
      password = ''alice-secret''\<rparr>"

definition hello_content :: email_content where
  "hello_content =
     \<lparr>ec_from = ''Alice <alice@example.com>'', ec_to = [''a@x.com''], ec_subject = ''Hi'',
      ec_cc = None, ec_bcc = None, ec_html = None, ec_content = Some ''Hello''\<rparr>"

definition hello_row :: sent_email where
  "hello_row =
     \<lparr>user_id = ''user-alice'', rec_smtp_config_id = Some ''cfg-alice'',
      to_emails = Some [''a@x.com''], cc_emails = None, bcc_emails = None,
      rec_subject = Some ''Hi'', rec_body = Some ''Hello'', rec_is_html = False,
      status = ''sent'', error_message = None\<rparr>"

text \<open>A test for the examples of the compose form: an address holds an \<^verbatim>\<open>@\<close>.\<close>

definition contains_at :: "string \<Rightarrow> bool" where
  "contains_at s = (CHR 0x40 \<in> set s)"

section \<open>Properties\<close>

subsection \<open>The paths of the handler\<close>

lemma deliver_send_fails:
  "smtp_send e (client_options c) (emailContent c r t s b (or_false (is_html r))) = Some msg \<Longrightarrow>
   deliver e u r c i t s b =
     ([SmtpOpen (client_options c),
       SmtpSend (client_options c) (emailContent c r t s b (or_false (is_html r))) (Some msg)],
      Inl msg)"
  by (simp add: deliver_def Let_def)

lemma deliver_close_fails:
  "smtp_send e (client_options c) (emailContent c r t s b (or_false (is_html r))) = None \<Longrightarrow>
   smtp_close e (client_options c) = Some msg \<Longrightarrow>
   deliver e u r c i t s b =
     ([SmtpOpen (client_options c),
       SmtpSend (client_options c) (emailContent c r t s b (or_false (is_html r))) None,
       SmtpClose (client_options c) (Some msg)],
      Inl msg)"
  by (simp add: deliver_def Let_def)

lemma deliver_sent:
  "smtp_send e (client_options c) (emailContent c r t s b (or_false (is_html r))) = None \<Longrightarrow>
   smtp_close e (client_options c) = None \<Longrightarrow>
   deliver e u r c i t s b =
     ([SmtpOpen (client_options c),
       SmtpSend (client_options c) (emailContent c r t s b (or_false (is_html r))) None,
       SmtpClose (client_options c) None,
       InsertSentEmail (sent_record u r i t s b (or_false (is_html r)))
         (insert_sent_email e (sent_record u r i t s b (or_false (is_html r))))],
      Inr sent_ok)"
  by (simp add: deliver_def Let_def)

lemma save_failed_resolved:
  "authorization req = Some h \<Longrightarrow> h \<noteq> [] \<Longrightarrow> getUser e h = Inr u \<Longrightarrow>
   save_failed e req msg used =
     AuthGetUser h # CloneJson #
       (case clone_json req used of
          Inl _ \<Rightarrow> []
        | Inr r \<Rightarrow> [InsertSentEmail (failed_record u r msg)
                      (insert_sent_email e (failed_record u r msg))])"
  by (simp add: save_failed_def split: sum.splits)

lemma serve_cases [case_names Preflight NoHeader NoUser BadJson MissingFields NoConfig
    SendFails CloseFails Sent]:
  obtains
    (Preflight) "http_method req = ''OPTIONS''" "serve e req = ([], preflight)"
  | (NoHeader) "http_method req \<noteq> ''OPTIONS''"
      "authorization req = None \<or> authorization req = Some []"
      "serve e req = ([], json_response 401 (failure ''Missing authorization header''))"
  | (NoUser) h err where "http_method req \<noteq> ''OPTIONS''"
      "authorization req = Some h" "h \<noteq> []" "getUser e h = Inl err"
      "serve e req = ([AuthGetUser h], json_response 401 (failure ''Unauthorized''))"
  | (BadJson) h u msg where "http_method req \<noteq> ''OPTIONS''"
      "authorization req = Some h" "h \<noteq> []" "getUser e h = Inr u" "json req = Inl msg"
      "serve e req = ([AuthGetUser h, ReadJson, AuthGetUser h, CloneJson], error_response msg)"
  | (MissingFields) h u r where "http_method req \<noteq> ''OPTIONS''"
      "authorization req = Some h" "h \<noteq> []" "getUser e h = Inr u" "json req = Inr r"
      "required_fields r = None"
      "serve e req =
         ([AuthGetUser h, ReadJson], json_response 400 (failure ''Missing required fields''))"
  | (NoConfig) h u r i t s b err where "http_method req \<noteq> ''OPTIONS''"
      "authorization req = Some h" "h \<noteq> []" "getUser e h = Inr u" "json req = Inr r"
      "required_fields r = Some (i, t, s, b)"
      "select_single (smtp_configs e) i (uid u) = Inl err"
      "serve e req =
         ([AuthGetUser h, ReadJson, SelectConfig i (uid u)],
          json_response 404 (failure ''SMTP configuration not found''))"
  | (SendFails) h u r i t s b c msg where "http_method req \<noteq> ''OPTIONS''"
      "authorization req = Some h" "h \<noteq> []" "getUser e h = Inr u" "json req = Inr r"
      "required_fields r = Some (i, t, s, b)"
      "select_single (smtp_configs e) i (uid u) = Inr c"
      "smtp_send e (client_options c) (emailContent c r t s b (or_false (is_html r))) = Some msg"
      "serve e req =
         ([AuthGetUser h, ReadJson, SelectConfig i (uid u), SmtpOpen (client_options c),
           SmtpSend (client_options c) (emailContent c r t s b (or_false (is_html r))) (Some msg),
           AuthGetUser h, CloneJson],
          error_response msg)"
  | (CloseFails) h u r i t s b c msg where "http_method req \<noteq> ''OPTIONS''"
      "authorization req = Some h" "h \<noteq> []" "getUser e h = Inr u" "json req = Inr r"
      "required_fields r = Some (i, t, s, b)"
      "select_single (smtp_configs e) i (uid u) = Inr c"
      "smtp_send e (client_options c) (emailContent c r t s b (or_false (is_html r))) = None"
      "smtp_close e (client_options c) = Some msg"
      "serve e req =
         ([AuthGetUser h, ReadJson, SelectConfig i (uid u), SmtpOpen (client_options c),
           SmtpSend (client_options c) (emailContent c r t s b (or_false (is_html r))) None,
           SmtpClose (client_options c) (Some msg),
           AuthGetUser h, CloneJson],
          error_response msg)"
  | (Sent) h u r i t s b c where "http_method req \<noteq> ''OPTIONS''"
      "authorization req = Some h" "h \<noteq> []" "getUser e h = Inr u" "json req = Inr r"
      "required_fields r = Some (i, t, s, b)"
      "select_single (smtp_configs e) i (uid u) = Inr c"
      "smtp_send e (client_options c) (emailContent c r t s b (or_false (is_html r))) = None"
      "smtp_close e (client_options c) = None"
      "serve e req =
         ([AuthGetUser h, ReadJson, SelectConfig i (uid u), SmtpOpen (client_options c),
           SmtpSend (client_options c) (emailContent c r t s b (or_false (is_html r))) None,
           SmtpClose (client_options c) None,
           InsertSentEmail (sent_record u r i t s b (or_false (is_html r)))
             (insert_sent_email e (sent_record u r i t s b (or_false (is_html r))))],
          sent_ok)"
proof (cases "http_method req = ''OPTIONS''")
  case True
  then show ?thesis using Preflight by (simp add: serve_def)
next
  case post: False
  show ?thesis
  proof (cases "authorization req = None \<or> authorization req = Some []")
    case True
    then have "try_block e req = ([], Inr (json_response 401 (failure ''Missing authorization header'')))"
      by (auto simp: try_block_def)
    then show ?thesis using NoHeader post True by (simp add: serve_def)
  next
    case False
    then obtain h where h: "authorization req = Some h" "h \<noteq> []" by auto
    show ?thesis
    proof (cases "getUser e h")
      case (Inl err)
      then have "try_block e req = ([AuthGetUser h], Inr (json_response 401 (failure ''Unauthorized'')))"
        using h by (simp add: try_block_def)
      then show ?thesis using NoUser post h Inl by (simp add: serve_def)
    next
      case u: (Inr u)
      note sf = save_failed_resolved [OF h u]
      show ?thesis
      proof (cases "json req")
        case (Inl msg)
        then have "try_block e req = ([AuthGetUser h, ReadJson], Inl msg)"
          using h u by (simp add: try_block_def)
        then have "serve e req = ([AuthGetUser h, ReadJson, AuthGetUser h, CloneJson], error_response msg)"
          using post Inl by (simp add: serve_def sf clone_json_def)
        then show ?thesis using BadJson post h u Inl by blast
      next
        case r: (Inr r)
        show ?thesis
        proof (cases "required_fields r")
          case None
          then have "try_block e req =
              ([AuthGetUser h, ReadJson], Inr (json_response 400 (failure ''Missing required fields'')))"
            using h u r by (simp add: try_block_def)
          then show ?thesis using MissingFields post h u r None by (simp add: serve_def)
        next
          case (Some q)
          then obtain i t s b where q: "required_fields r = Some (i, t, s, b)"
            by (cases q) auto
          show ?thesis
          proof (cases "select_single (smtp_configs e) i (uid u)")
            case (Inl err)
            then have "try_block e req =
                ([AuthGetUser h, ReadJson, SelectConfig i (uid u)],
                 Inr (json_response 404 (failure ''SMTP configuration not found'')))"
              using h u r q by (simp add: try_block_def)
            then show ?thesis using NoConfig post h u r q Inl by (simp add: serve_def)
          next
            case c: (Inr c)
            have tb: "try_block e req =
                (let (tr, res) = deliver e u r c i t s b
                 in ([AuthGetUser h, ReadJson, SelectConfig i (uid u)] @ tr, res))"
              using h u r q c by (simp add: try_block_def)
            show ?thesis
            proof (cases "smtp_send e (client_options c) (emailContent c r t s b (or_false (is_html r)))")
              case (Some msg)
              have "serve e req =
                 ([AuthGetUser h, ReadJson, SelectConfig i (uid u), SmtpOpen (client_options c),
                   SmtpSend (client_options c) (emailContent c r t s b (or_false (is_html r))) (Some msg),
                   AuthGetUser h, CloneJson],
                  error_response msg)"
                using post r by (simp add: serve_def tb deliver_send_fails [OF Some] sf clone_json_def)
              then show ?thesis using SendFails post h u r q c Some by blast
            next
              case sent: None
              show ?thesis
              proof (cases "smtp_close e (client_options c)")
                case (Some msg)
                have "serve e req =
                   ([AuthGetUser h, ReadJson, SelectConfig i (uid u), SmtpOpen (client_options c),
                     SmtpSend (client_options c) (emailContent c r t s b (or_false (is_html r))) None,
                     SmtpClose (client_options c) (Some msg),
                     AuthGetUser h, CloneJson],
                    error_response msg)"
                  using post r
                  by (simp add: serve_def tb deliver_close_fails [OF sent Some] sf clone_json_def)
                then show ?thesis using CloseFails post h u r q c sent Some by blast
              next
                case None
                have "serve e req =
                   ([AuthGetUser h, ReadJson, SelectConfig i (uid u), SmtpOpen (client_options c),
                     SmtpSend (client_options c) (emailContent c r t s b (or_false (is_html r))) None,
                     SmtpClose (client_options c) None,
                     InsertSentEmail (sent_record u r i t s b (or_false (is_html r)))
                       (insert_sent_email e (sent_record u r i t s b (or_false (is_html r))))],
                    sent_ok)"
                  using post by (simp add: serve_def tb deliver_sent [OF sent None])
                then show ?thesis using Sent post h u r q c sent None by blast
              qed
            qed
          qed
        qed
      qed
    qed
  qed
qed

lemma required_fields_None:
  "required_fields r = None \<longleftrightarrow>
     smtp_config_id r = None \<or> smtp_config_id r = Some [] \<or> to r = None \<or> to r = Some [] \<or>
     subject r = None \<or> subject r = Some [] \<or> body r = None \<or> body r = Some []"
  by (auto simp: required_fields_def split: option.splits)

lemma select_single_none:
  assumes "\<forall>c \<in> set rows. cfg_id c = i \<longrightarrow> cfg_user_id c \<noteq> u"
  shows "select_single rows i u = Inl ''JSON object requested, multiple (or no) rows returned''"
proof -
  from assms have "filter (\<lambda>c. cfg_id c = i \<and> cfg_user_id c = u) rows = []"
    by (auto simp: filter_empty_conv)
  then show ?thesis by (simp add: select_single_def)
qed

lemma validateEmails_None: "validateEmails ok xs = None \<longleftrightarrow> (\<forall>x \<in> set xs. ok x)"
  by (induction xs) auto

lemmas concrete_defs = alice_def bob_def alice_config_def bob_config_def resolve_def env_ok_def
  hello_def post_as_alice_def alice_client_def hello_content_def hello_row_def

lemmas step_defs = serve_def try_block_def deliver_def save_failed_def clone_json_def Let_def
  required_fields_def select_single_def client_options_def fromAddress_def non_empty_def
  or_null_def or_false_def emailContent_def sent_record_def failed_record_def error_response_def
  json_response_def failure_def sent_ok_def preflight_def corsHeaders_def

lemmas run_defs = effects_def respond_def step_defs concrete_defs

lemma run_hello:
  "serve env_ok (post_as_alice hello) =
     ([AuthGetUser ''Bearer alice-token'', ReadJson, SelectConfig ''cfg-alice'' ''user-alice'',
       SmtpOpen alice_client, SmtpSend alice_client hello_content None,
       SmtpClose alice_client None, InsertSentEmail hello_row None],
      sent_ok)"
  by (simp add: step_defs concrete_defs)

lemma run_hello_refused:
  "serve env_refused (post_as_alice hello) =
     ([AuthGetUser ''Bearer alice-token'', ReadJson, SelectConfig ''cfg-alice'' ''user-alice'',
       SmtpOpen alice_client, SmtpSend alice_client hello_content (Some ''connection refused''),
       AuthGetUser ''Bearer alice-token'', CloneJson],
      error_response ''connection refused'')"
  by (simp add: step_defs concrete_defs env_refused_def)

lemma run_hello_no_history:
  "serve env_no_history (post_as_alice hello) =
     ([AuthGetUser ''Bearer alice-token'', ReadJson, SelectConfig ''cfg-alice'' ''user-alice'',
       SmtpOpen alice_client, SmtpSend alice_client hello_content None,
       SmtpClose alice_client None, InsertSentEmail hello_row (Some ''permission denied'')],
      sent_ok)"
  by (simp add: step_defs concrete_defs env_no_history_def)

subsection \<open>Address validation\<close>

text \<open>
  C1, as the specification states it, fails on the handler: it never looks at the
  syntax of an address. The request of Scenario C, with the single recipient
  \<^verbatim>\<open>not-an-email\<close>, is answered with status 200 and \<^verbatim>\<open>success: true\<close>, and the message
  is handed to the mail server.
\<close>

theorem dispatch_accepts_invalid_address:
  "http_status (respond env_ok (post_as_alice (hello\<lparr>to := Some [''not-an-email'']\<rparr>))) = 200 \<and>
   payload (respond env_ok (post_as_alice (hello\<lparr>to := Some [''not-an-email'']\<rparr>))) =
     Some \<lparr>success = True, message = Some ''Email sent successfully'', error = None\<rparr> \<and>
   filter is_send (effects env_ok (post_as_alice (hello\<lparr>to := Some [''not-an-email'']\<rparr>))) =
     [SmtpSend alice_client (hello_content\<lparr>ec_to := [''not-an-email'']\<rparr>) None]"
  by (simp add: run_defs)

text \<open>
  C1, amended: the addresses are checked by the compose form. When one of the addresses
  parsed from the To, CC and BCC inputs does not pass the test, whatever the others are,
  \<^verbatim>\<open>handleSend\<close> stops at a toast and does not call the function, so no session with
  the mail server is opened and nothing is transmitted.
\<close>

theorem invalid_address_stops_compose:
  assumes "a \<in> set (parseEmails to_text @ parseEmails cc_text @ parseEmails bcc_text)"
      and "\<not> ok a"
  shows "\<exists>t. handleSend ok selectedConfig to_text cc_text bcc_text subject_text body_text =
              Rejected t"
proof -
  from assms
  have "validateEmails ok (parseEmails to_text @ parseEmails cc_text @ parseEmails bcc_text)
          \<noteq> None"
    unfolding validateEmails_None by blast
  then show ?thesis
    by (auto simp: handleSend_def Let_def)
qed

text \<open>
  C1, an instance: two valid recipients in To and \<^verbatim>\<open>not-an-email\<close> in BCC; the form
  stops at the toast that names the address.
\<close>

theorem invalid_address_stops_compose_witness:
  "''not-an-email'' \<in> set (parseEmails ''a@x.com, b@y.org'' @ parseEmails [] @
                             parseEmails ''not-an-email'') \<and>
   \<not> contains_at ''not-an-email'' \<and>
   handleSend contains_at ''cfg-alice'' ''a@x.com, b@y.org'' [] ''not-an-email'' ''Hi'' ''Hello'' =
     Rejected (Toast ''Invalid Email''
                 (CHR 0x22 # ''not-an-email'' @ CHR 0x22 # '' is not a valid email address.''))"
proof -
  have p: "parseEmails ''a@x.com, b@y.org'' = [''a@x.com'', ''b@y.org'']"
          "parseEmails [] = []" "parseEmails ''not-an-email'' = [''not-an-email'']"
    by (simp_all add: parseEmails_def trim_def js_space_def)
  have a: "''not-an-email'' \<in> set (parseEmails ''a@x.com, b@y.org'' @ parseEmails [] @
                             parseEmails ''not-an-email'')"
    by (simp add: p)
  have b: "\<not> contains_at ''not-an-email''"
    by (simp add: contains_at_def)
  from invalid_address_stops_compose
         [where ok = contains_at and a = "''not-an-email''" and to_text = "''a@x.com, b@y.org''"
            and cc_text = "[]" and bcc_text = "''not-an-email''"
            and selectedConfig = "''cfg-alice''" and subject_text = "''Hi''"
            and body_text = "''Hello''", OF a b]
  obtain t where "handleSend contains_at ''cfg-alice'' ''a@x.com, b@y.org'' [] ''not-an-email''
      ''Hi'' ''Hello'' = Rejected t" by blast
  moreover have "handleSend contains_at ''cfg-alice'' ''a@x.com, b@y.org'' [] ''not-an-email''
      ''Hi'' ''Hello'' = Rejected (Toast ''Invalid Email''
                 (CHR 0x22 # ''not-an-email'' @ CHR 0x22 # '' is not a valid email address.''))"
    by (simp add: handleSend_def p contains_at_def)
  ultimately show ?thesis using a b by simp
qed

subsection \<open>Failures of the mail server\<close>

text \<open>
  C2, as the specification states it, fails: when the mail server refuses the connection
  the response has status 500, not 200.
\<close>

theorem transport_failure_not_200:
  "SmtpSend alice_client hello_content (Some ''connection refused'')
     \<in> set (effects env_refused (post_as_alice hello)) \<and>
   http_status (respond env_refused (post_as_alice hello)) = 500 \<and>
   http_status (respond env_refused (post_as_alice hello)) \<noteq> 200"
  by (simp add: effects_def respond_def run_hello_refused error_response_def json_response_def)

text \<open>
  C2, amended: whenever \<^verbatim>\<open>client.send\<close> or \<^verbatim>\<open>client.close\<close> throws, the response has
  status 500 with \<^verbatim>\<open>success: false\<close> and, as \<^verbatim>\<open>error\<close>, the message of the error
  thrown, or \<^verbatim>\<open>Failed to send email\<close> when that message is empty.
\<close>

theorem transport_failure_response:
  assumes "SmtpSend conn content (Some msg) \<in> set (effects e req) \<or>
           SmtpClose conn (Some msg) \<in> set (effects e req)"
  shows "http_status (respond e req) = 500 \<and>
         payload (respond e req) =
           Some \<lparr>success = False, message = None,
                 error = Some (if msg = [] then ''Failed to send email'' else msg)\<rparr>"
  using assms
  by (cases rule: serve_cases [of req e])
     (auto simp: effects_def respond_def error_response_def json_response_def failure_def
           split: if_splits)

text \<open>C2, an instance: the connection is refused.\<close>

theorem transport_failure_response_witness:
  "(SmtpSend alice_client hello_content (Some ''connection refused'')
      \<in> set (effects env_refused (post_as_alice hello)) \<or>
    SmtpClose alice_client (Some ''connection refused'')
      \<in> set (effects env_refused (post_as_alice hello))) \<and>
   http_status (respond env_refused (post_as_alice hello)) = 500 \<and>
   payload (respond env_refused (post_as_alice hello)) =
     Some \<lparr>success = False, message = None, error = Some ''connection refused''\<rparr>"
proof -
  have a: "SmtpSend alice_client hello_content (Some ''connection refused'')
             \<in> set (effects env_refused (post_as_alice hello)) \<or>
           SmtpClose alice_client (Some ''connection refused'')
             \<in> set (effects env_refused (post_as_alice hello))"
    by (simp add: effects_def run_hello_refused)
  show ?thesis using a transport_failure_response [OF a] by simp
qed

text \<open>
  C3 does not hold of the code: \<^verbatim>\<open>client.close()\<close> is called after \<^verbatim>\<open>client.send\<close>
  only when \<^verbatim>\<open>send\<close> returns. When the mail server refuses the connection, the session
  that \<^verbatim>\<open>new SMTPClient\<close> opened is never closed: the only calls to the mail server are
  the opening and the failed transmission.
\<close>

theorem session_left_open_on_send_failure:
  "filter is_smtp (effects env_refused (post_as_alice hello)) =
     [SmtpOpen alice_client, SmtpSend alice_client hello_content (Some ''connection refused'')] \<and>
   filter is_close (effects env_refused (post_as_alice hello)) = []"
  by (simp add: effects_def run_hello_refused is_smtp_def)

subsection \<open>Empty CC and BCC\<close>

text \<open>
  C4, as the specification states it, fails for the row of the history: with
  \<^verbatim>\<open>cc: []\<close> and \<^verbatim>\<open>bcc: []\<close> the row inserted into \<^verbatim>\<open>sent_emails\<close> holds two empty
  arrays, not null, since \<^verbatim>\<open>[] || null\<close> is \<^verbatim>\<open>[]\<close>.
\<close>

theorem empty_cc_stored_as_empty:
  "filter is_insert (effects env_ok (post_as_alice (hello\<lparr>cc := Some [], bcc := Some []\<rparr>))) =
     [InsertSentEmail (hello_row\<lparr>cc_emails := Some [], bcc_emails := Some []\<rparr>) None] \<and>
   cc_emails (hello_row\<lparr>cc_emails := Some [], bcc_emails := Some []\<rparr>) \<noteq> None \<and>
   bcc_emails (hello_row\<lparr>cc_emails := Some [], bcc_emails := Some []\<rparr>) \<noteq> None"
  by (simp add: run_defs)

text \<open>
  C4, amended: a \<^verbatim>\<open>cc\<close> or \<^verbatim>\<open>bcc\<close> that is an empty sequence is not passed to the mail
  server (the message given to \<^verbatim>\<open>client.send\<close> has no such field); the row of the history
  holds the field as the request gave it, an empty array for an empty array, and null
  only when the request has no such field.
\<close>

theorem empty_cc_bcc:
  assumes "json req = Inr r"
  shows "(SmtpSend conn content res \<in> set (effects e req) \<longrightarrow>
            (cc r = Some [] \<longrightarrow> ec_cc content = None) \<and>
            (bcc r = Some [] \<longrightarrow> ec_bcc content = None)) \<and>
         (InsertSentEmail row res' \<in> set (effects e req) \<longrightarrow>
            cc_emails row = cc r \<and> bcc_emails row = bcc r)"
  using assms
  by (cases rule: serve_cases [of req e])
     (auto simp: effects_def emailContent_def non_empty_def sent_record_def failed_record_def
                 or_null_def
           split: if_splits option.splits)

text \<open>C4, an instance: Scenario E, both fields empty arrays.\<close>

theorem empty_cc_bcc_witness:
  "json (post_as_alice (hello\<lparr>cc := Some [], bcc := Some []\<rparr>)) =
     Inr (hello\<lparr>cc := Some [], bcc := Some []\<rparr>) \<and>
   SmtpSend alice_client hello_content None
     \<in> set (effects env_ok (post_as_alice (hello\<lparr>cc := Some [], bcc := Some []\<rparr>))) \<and>
   cc (hello\<lparr>cc := Some [], bcc := Some []\<rparr>) = Some [] \<and>
   bcc (hello\<lparr>cc := Some [], bcc := Some []\<rparr>) = Some [] \<and>
   ec_cc hello_content = None \<and> ec_bcc hello_content = None \<and>
   InsertSentEmail (hello_row\<lparr>cc_emails := Some [], bcc_emails := Some []\<rparr>) None
     \<in> set (effects env_ok (post_as_alice (hello\<lparr>cc := Some [], bcc := Some []\<rparr>))) \<and>
   cc_emails (hello_row\<lparr>cc_emails := Some [], bcc_emails := Some []\<rparr>) = Some [] \<and>
   bcc_emails (hello_row\<lparr>cc_emails := Some [], bcc_emails := Some []\<rparr>) = Some []"
proof -
  let ?r = "hello\<lparr>cc := Some [], bcc := Some []\<rparr>"
  let ?row = "hello_row\<lparr>cc_emails := Some [], bcc_emails := Some []\<rparr>"
  have j: "json (post_as_alice ?r) = Inr ?r"
    by (simp add: post_as_alice_def)
  have run: "effects env_ok (post_as_alice ?r) =
      [AuthGetUser ''Bearer alice-token'', ReadJson, SelectConfig ''cfg-alice'' ''user-alice'',
       SmtpOpen alice_client, SmtpSend alice_client hello_content None,
       SmtpClose alice_client None, InsertSentEmail ?row None]"
    by (simp add: run_defs)
  have s: "SmtpSend alice_client hello_content None \<in> set (effects env_ok (post_as_alice ?r))"
    and i: "InsertSentEmail ?row None \<in> set (effects env_ok (post_as_alice ?r))"
    by (simp_all add: run)
  have e: "cc ?r = Some []" "bcc ?r = Some []"
    by simp_all
  from empty_cc_bcc [OF j, of alice_client hello_content None env_ok ?row None] s i e
  have "ec_cc hello_content = None \<and> ec_bcc hello_content = None \<and>
        cc_emails ?row = Some [] \<and> bcc_emails ?row = Some []"
    by simp
  with j s i e show ?thesis by simp
qed

subsection \<open>Configurations of other users\<close>

text \<open>
  C5: an authenticated caller whose request has its required fields and names a
  configuration that is not a row owned by the caller (no row of that id, or a row of
  another user) gets status 404 with the fixed error \<^verbatim>\<open>SMTP configuration not found\<close>,
  not 401; the whole response, headers included, is the same whatever the table holds,
  so nothing of another owner's row is disclosed; the only calls made are the resolution
  of the user, the reading of the body and the query, so no row is inserted into the
  history and the mail server is not contacted.
\<close>

theorem config_of_another_owner:
  assumes "http_method req \<noteq> ''OPTIONS''"
      and "authorization req = Some h" and "h \<noteq> []" and "getUser e h = Inr u"
      and "json req = Inr r" and "required_fields r = Some (i, t, s, b)"
      and "\<forall>c \<in> set (smtp_configs e). cfg_id c = i \<longrightarrow> cfg_user_id c \<noteq> uid u"
  shows "http_status (respond e req) = 404 \<and>
         payload (respond e req) =
           Some \<lparr>success = False, message = None, error = Some ''SMTP configuration not found''\<rparr> \<and>
         effects e req = [AuthGetUser h, ReadJson, SelectConfig i (uid u)] \<and>
         respond e req = json_response 404 (failure ''SMTP configuration not found'')"
proof -
  have none: "select_single (smtp_configs e) i (uid u) =
                Inl ''JSON object requested, multiple (or no) rows returned''"
    using assms(7) by (rule select_single_none)
  show ?thesis
    using assms(1-6) none
    by (cases rule: serve_cases [of req e])
       (auto simp: effects_def respond_def json_response_def failure_def)
qed

text \<open>C5, an instance: Scenario D, alice names the configuration of bob.\<close>

theorem config_of_another_owner_witness:
  "http_method (post_as_alice (hello\<lparr>smtp_config_id := Some ''cfg-bob''\<rparr>)) \<noteq> ''OPTIONS'' \<and>
   authorization (post_as_alice (hello\<lparr>smtp_config_id := Some ''cfg-bob''\<rparr>)) =
     Some ''Bearer alice-token'' \<and>
   getUser env_ok ''Bearer alice-token'' = Inr alice \<and>
   required_fields (hello\<lparr>smtp_config_id := Some ''cfg-bob''\<rparr>) =
     Some (''cfg-bob'', [''a@x.com''], ''Hi'', ''Hello'') \<and>
   smtp_configs env_ok = [alice_config, bob_config] \<and>
   cfg_id alice_config \<noteq> ''cfg-bob'' \<and>
   cfg_id bob_config = ''cfg-bob'' \<and> cfg_user_id bob_config \<noteq> uid alice \<and>
   http_status (respond env_ok (post_as_alice (hello\<lparr>smtp_config_id := Some ''cfg-bob''\<rparr>))) = 404 \<and>
   payload (respond env_ok (post_as_alice (hello\<lparr>smtp_config_id := Some ''cfg-bob''\<rparr>))) =
     Some \<lparr>success = False, message = None, error = Some ''SMTP configuration not found''\<rparr> \<and>
   effects env_ok (post_as_alice (hello\<lparr>smtp_config_id := Some ''cfg-bob''\<rparr>)) =
     [AuthGetUser ''Bearer alice-token'', ReadJson, SelectConfig ''cfg-bob'' ''user-alice''] \<and>
   respond env_ok (post_as_alice (hello\<lparr>smtp_config_id := Some ''cfg-bob''\<rparr>)) =
     json_response 404 (failure ''SMTP configuration not found'')"
proof -
  let ?r = "hello\<lparr>smtp_config_id := Some ''cfg-bob''\<rparr>"
  have a1: "http_method (post_as_alice ?r) \<noteq> ''OPTIONS''"
    and a2: "authorization (post_as_alice ?r) = Some ''Bearer alice-token''"
    and a3: "''Bearer alice-token'' \<noteq> []"
    and a5: "json (post_as_alice ?r) = Inr ?r"
    by (simp_all add: post_as_alice_def)
  have a4: "getUser env_ok ''Bearer alice-token'' = Inr alice"
    by (simp add: env_ok_def resolve_def)
  have a6: "required_fields ?r = Some (''cfg-bob'', [''a@x.com''], ''Hi'', ''Hello'')"
    by (simp add: required_fields_def hello_def)
  have a7: "\<forall>c \<in> set (smtp_configs env_ok). cfg_id c = ''cfg-bob'' \<longrightarrow> cfg_user_id c \<noteq> uid alice"
    by (simp add: env_ok_def alice_config_def bob_config_def alice_def)
  have b: "smtp_configs env_ok = [alice_config, bob_config]"
          "cfg_id alice_config \<noteq> ''cfg-bob''"
          "cfg_id bob_config = ''cfg-bob''" "cfg_user_id bob_config \<noteq> uid alice"
    by (simp_all add: env_ok_def alice_config_def bob_config_def alice_def)
  have u: "uid alice = ''user-alice''"
    by (simp add: alice_def)
  note t = config_of_another_owner [OF a1 a2 a3 a4 a5 a6 a7, unfolded u]
  from t a1 a2 a4 a6 b show ?thesis by blast
qed

subsection \<open>The history is written on a best effort\<close>

text \<open>
  C6: when the message was transmitted and the session closed, and the insertion into
  \<^verbatim>\<open>sent_emails\<close> then returns an error, the response is still status 200 with
  \<^verbatim>\<open>success: true\<close>.
\<close>

theorem history_failure_keeps_success:
  assumes "SmtpSend conn content None \<in> set (effects e req)"
      and "SmtpClose conn None \<in> set (effects e req)"
      and "InsertSentEmail row (Some err) \<in> set (effects e req)"
  shows "http_status (respond e req) = 200 \<and>
         payload (respond e req) =
           Some \<lparr>success = True, message = Some ''Email sent successfully'', error = None\<rparr>"
  using assms
  by (cases rule: serve_cases [of req e])
     (auto simp: effects_def respond_def sent_ok_def json_response_def split: if_splits)

text \<open>C6, an instance: the table cannot be written.\<close>

theorem history_failure_keeps_success_witness:
  "SmtpSend alice_client hello_content None \<in> set (effects env_no_history (post_as_alice hello)) \<and>
   SmtpClose alice_client None \<in> set (effects env_no_history (post_as_alice hello)) \<and>
   InsertSentEmail hello_row (Some ''permission denied'')
     \<in> set (effects env_no_history (post_as_alice hello)) \<and>
   http_status (respond env_no_history (post_as_alice hello)) = 200 \<and>
   payload (respond env_no_history (post_as_alice hello)) =
     Some \<lparr>success = True, message = Some ''Email sent successfully'', error = None\<rparr>"
proof -
  have a: "SmtpSend alice_client hello_content None
             \<in> set (effects env_no_history (post_as_alice hello))"
    and b: "SmtpClose alice_client None \<in> set (effects env_no_history (post_as_alice hello))"
    and c: "InsertSentEmail hello_row (Some ''permission denied'')
             \<in> set (effects env_no_history (post_as_alice hello))"
    by (simp_all add: effects_def run_hello_no_history)
  show ?thesis using a b c history_failure_keeps_success [OF a b c] by simp
qed

text \<open>
  C7: on every path of a call, \<^verbatim>\<open>client.send\<close> is called at most once and an insertion
  into \<^verbatim>\<open>sent_emails\<close> is attempted at most once, also when the mail server or the
  insertion fails.
\<close>

theorem at_most_once:
  "length (filter is_send (effects e req)) \<le> 1 \<and>
   length (filter is_insert (effects e req)) \<le> 1"
  by (cases rule: serve_cases [of req e]) (simp_all add: effects_def)

subsection \<open>Required fields\<close>

text \<open>
  C8, as the specification states it, fails: the handler does not trim. A subject of
  three spaces and a body of one space, both empty after trimming, pass the test of the
  required fields; the response has status 200 and the message is handed to the mail
  server with that subject and that body.
\<close>

theorem blank_subject_body_sent:
  "trim ''   '' = [] \<and> trim '' '' = [] \<and>
   http_status
     (respond env_ok (post_as_alice (hello\<lparr>subject := Some ''   '', body := Some '' ''\<rparr>))) = 200 \<and>
   filter is_send
     (effects env_ok (post_as_alice (hello\<lparr>subject := Some ''   '', body := Some '' ''\<rparr>))) =
     [SmtpSend alice_client
        (hello_content\<lparr>ec_subject := ''   '', ec_content := Some '' ''\<rparr>) None]"
  by (simp add: run_defs trim_def js_space_def)

text \<open>
  C8, amended: for an authenticated caller, a request whose subject or body is missing or
  is the empty string is rejected with status 400 and the error
  \<^verbatim>\<open>Missing required fields\<close>; the configuration is not looked up and nothing is
  transmitted. A subject or body of white space only passes this test.
\<close>

theorem empty_subject_or_body_rejected:
  assumes "http_method req \<noteq> ''OPTIONS''"
      and "authorization req = Some h" and "h \<noteq> []" and "getUser e h = Inr u"
      and "json req = Inr r"
      and "subject r = None \<or> subject r = Some [] \<or> body r = None \<or> body r = Some []"
  shows "http_status (respond e req) = 400 \<and>
         payload (respond e req) =
           Some \<lparr>success = False, message = None, error = Some ''Missing required fields''\<rparr> \<and>
         effects e req = [AuthGetUser h, ReadJson]"
proof -
  have none: "required_fields r = None"
    using assms(6) unfolding required_fields_None by blast
  show ?thesis
    using assms(1-5) none
    by (cases rule: serve_cases [of req e])
       (auto simp: effects_def respond_def json_response_def failure_def)
qed

text \<open>C8, an instance: the subject is the empty string.\<close>

theorem empty_subject_or_body_rejected_witness:
  "http_method (post_as_alice (hello\<lparr>subject := Some []\<rparr>)) \<noteq> ''OPTIONS'' \<and>
   authorization (post_as_alice (hello\<lparr>subject := Some []\<rparr>)) = Some ''Bearer alice-token'' \<and>
   getUser env_ok ''Bearer alice-token'' = Inr alice \<and>
   json (post_as_alice (hello\<lparr>subject := Some []\<rparr>)) = Inr (hello\<lparr>subject := Some []\<rparr>) \<and>
   subject (hello\<lparr>subject := Some []\<rparr>) = Some [] \<and>
   http_status (respond env_ok (post_as_alice (hello\<lparr>subject := Some []\<rparr>))) = 400 \<and>
   payload (respond env_ok (post_as_alice (hello\<lparr>subject := Some []\<rparr>))) =
     Some \<lparr>success = False, message = None, error = Some ''Missing required fields''\<rparr> \<and>
   effects env_ok (post_as_alice (hello\<lparr>subject := Some []\<rparr>)) =
     [AuthGetUser ''Bearer alice-token'', ReadJson]"
proof -
  let ?r = "hello\<lparr>subject := Some []\<rparr>"
  have a1: "http_method (post_as_alice ?r) \<noteq> ''OPTIONS''"
    and a2: "authorization (post_as_alice ?r) = Some ''Bearer alice-token''"
    and a3: "''Bearer alice-token'' \<noteq> []"
    and a5: "json (post_as_alice ?r) = Inr ?r"
    by (simp_all add: post_as_alice_def)
  have a4: "getUser env_ok ''Bearer alice-token'' = Inr alice"
    by (simp add: env_ok_def resolve_def)
  have a6: "subject ?r = None \<or> subject ?r = Some [] \<or> body ?r = None \<or> body ?r = Some []"
    by simp
  from empty_subject_or_body_rejected [OF a1 a2 a3 a4 a5 a6] a1 a2 a4 a5
  show ?thesis by simp
qed

subsection \<open>Authentication comes first\<close>

text \<open>
  C9: for a call that is not a preflight, a missing (or empty) \<^verbatim>\<open>Authorization\<close> header
  gives status 401 with no call made at all, and a header the identity provider does
  not resolve gives status 401 after that one call to the identity provider: the body
  is not read, no configuration is looked up, the mail server is not contacted and the
  history is not written. More generally, a response with status 400, 401 or 404 comes
  with no call to the mail server and no insertion into the history.
\<close>

theorem unauthorized_first:
  assumes "http_method req \<noteq> ''OPTIONS''"
  shows "(authorization req = None \<or> authorization req = Some [] \<longrightarrow>
            http_status (respond e req) = 401 \<and>
            payload (respond e req) =
              Some \<lparr>success = False, message = None,
                    error = Some ''Missing authorization header''\<rparr> \<and>
            effects e req = []) \<and>
         (authorization req = Some h \<and> h \<noteq> [] \<and> getUser e h = Inl err \<longrightarrow>
            http_status (respond e req) = 401 \<and>
            payload (respond e req) =
              Some \<lparr>success = False, message = None, error = Some ''Unauthorized''\<rparr> \<and>
            effects e req = [AuthGetUser h]) \<and>
         (http_status (respond e req) \<in> {400, 401, 404} \<longrightarrow>
            filter is_smtp (effects e req) = [] \<and> filter is_insert (effects e req) = [])"
  using assms
  by (cases rule: serve_cases [of req e])
     (auto simp: effects_def respond_def json_response_def failure_def error_response_def
                 sent_ok_def is_smtp_def)

text \<open>
  C9, instances: no header; a token the identity provider does not know; and the
  status 404 of Scenario D.
\<close>

theorem unauthorized_first_witness:
  "http_status
     (respond env_ok \<lparr>http_method = ''POST'', authorization = None, json = Inr hello\<rparr>) = 401 \<and>
   effects env_ok \<lparr>http_method = ''POST'', authorization = None, json = Inr hello\<rparr> = [] \<and>
   getUser env_ok ''Bearer expired'' = Inl ''invalid JWT'' \<and>
   http_status
     (respond env_ok
        \<lparr>http_method = ''POST'', authorization = Some ''Bearer expired'', json = Inr hello\<rparr>) = 401 \<and>
   payload
     (respond env_ok
        \<lparr>http_method = ''POST'', authorization = Some ''Bearer expired'', json = Inr hello\<rparr>) =
     Some \<lparr>success = False, message = None, error = Some ''Unauthorized''\<rparr> \<and>
   effects env_ok
     \<lparr>http_method = ''POST'', authorization = Some ''Bearer expired'', json = Inr hello\<rparr> =
     [AuthGetUser ''Bearer expired''] \<and>
   http_status (respond env_ok (post_as_alice (hello\<lparr>smtp_config_id := Some ''cfg-bob''\<rparr>)))
     \<in> {400, 401, 404} \<and>
   filter is_smtp (effects env_ok (post_as_alice (hello\<lparr>smtp_config_id := Some ''cfg-bob''\<rparr>))) = [] \<and>
   filter is_insert (effects env_ok (post_as_alice (hello\<lparr>smtp_config_id := Some ''cfg-bob''\<rparr>))) = []"
proof -
  let ?anon = "\<lparr>http_method = ''POST'', authorization = None, json = Inr hello\<rparr>"
  let ?expired =
    "\<lparr>http_method = ''POST'', authorization = Some ''Bearer expired'', json = Inr hello\<rparr>"
  let ?other = "post_as_alice (hello\<lparr>smtp_config_id := Some ''cfg-bob''\<rparr>)"
  have m: "http_method ?anon \<noteq> ''OPTIONS''" "http_method ?expired \<noteq> ''OPTIONS''"
          "http_method ?other \<noteq> ''OPTIONS''"
    by (simp_all add: post_as_alice_def)
  have g: "getUser env_ok ''Bearer expired'' = Inl ''invalid JWT''"
    by (simp add: env_ok_def resolve_def)
  have st: "http_status (respond env_ok ?other) \<in> {400, 401, 404}"
    by (simp add: run_defs)
  from unauthorized_first [where e = env_ok, OF m(1)]
  have 1: "http_status (respond env_ok ?anon) = 401 \<and> effects env_ok ?anon = []"
    by simp
  from unauthorized_first
         [where e = env_ok and h = "''Bearer expired''" and err = "''invalid JWT''", OF m(2)] g
  have 2: "http_status (respond env_ok ?expired) = 401 \<and>
           payload (respond env_ok ?expired) =
             Some \<lparr>success = False, message = None, error = Some ''Unauthorized''\<rparr> \<and>
           effects env_ok ?expired = [AuthGetUser ''Bearer expired'']"
    by simp
  from unauthorized_first [where e = env_ok, OF m(3)] st
  have 3: "filter is_smtp (effects env_ok ?other) = [] \<and>
           filter is_insert (effects env_ok ?other) = []"
    by blast
  from 1 2 3 g st show ?thesis by blast
qed

subsection \<open>The owner of a row of the history\<close>

text \<open>
  C10: every row a call inserts into \<^verbatim>\<open>sent_emails\<close> carries as \<^verbatim>\<open>user_id\<close> the id of
  the user the identity provider resolves from the \<^verbatim>\<open>Authorization\<close> header of that
  call. The same holds of the \<^verbatim>\<open>catch\<close> block taken on its own, whatever error it
  caught and whether or not the body had been read by then (it has not when a call that
  precedes \<^verbatim>\<open>req.json()\<close> throws): a row it inserts carries the id of the user it
  resolved again from the header, and it inserts no row when the header is missing or
  empty or does not resolve to a user.
\<close>

theorem history_row_owner:
  "(InsertSentEmail row res \<in> set (effects e req) \<longrightarrow>
      (\<exists>h u. authorization req = Some h \<and> getUser e h = Inr u \<and> user_id row = uid u)) \<and>
   (InsertSentEmail row res \<in> set (save_failed e req msg used) \<longrightarrow>
      (\<exists>h u. authorization req = Some h \<and> h \<noteq> [] \<and> getUser e h = Inr u \<and>
             user_id row = uid u)) \<and>
   (authorization req = None \<or> authorization req = Some [] \<or>
    (\<exists>h err. authorization req = Some h \<and> getUser e h = Inl err) \<longrightarrow>
      filter is_insert (save_failed e req msg used) = [])"
proof (intro conjI impI)
  assume "InsertSentEmail row res \<in> set (effects e req)"
  then show "\<exists>h u. authorization req = Some h \<and> getUser e h = Inr u \<and> user_id row = uid u"
    by (cases rule: serve_cases [of req e])
       (auto simp: effects_def sent_record_def)
next
  assume ins: "InsertSentEmail row res \<in> set (save_failed e req msg used)"
  show "\<exists>h u. authorization req = Some h \<and> h \<noteq> [] \<and> getUser e h = Inr u \<and>
              user_id row = uid u"
  proof (cases "authorization req")
    case None
    with ins show ?thesis by (simp add: save_failed_def)
  next
    case (Some h)
    show ?thesis
    proof (cases "h = []")
      case True
      with ins Some show ?thesis by (simp add: save_failed_def)
    next
      case False
      show ?thesis
      proof (cases "getUser e h")
        case (Inl err)
        with ins Some False show ?thesis by (simp add: save_failed_def)
      next
        case (Inr u)
        from ins have "user_id row = uid u"
          unfolding save_failed_resolved [OF Some False Inr]
          by (cases "clone_json req used") (auto simp: failed_record_def)
        with Some False Inr show ?thesis by blast
      qed
    qed
  qed
next
  assume "authorization req = None \<or> authorization req = Some [] \<or>
          (\<exists>h err. authorization req = Some h \<and> getUser e h = Inl err)"
  then show "filter is_insert (save_failed e req msg used) = []"
    by (auto simp: save_failed_def split: option.splits sum.splits)
qed

text \<open>
  C10, instances, all for \<open>env_ok\<close>: the row of a message sent with the token of alice;
  the row the \<^verbatim>\<open>catch\<close> block inserts for the same request when an error was thrown
  before the body was read; and the same block for a token the identity provider does
  not know, where no row is inserted.
\<close>

theorem history_row_owner_witness:
  "InsertSentEmail hello_row None \<in> set (effects env_ok (post_as_alice hello)) \<and>
   InsertSentEmail
     (hello_row\<lparr>status := ''failed'', error_message := Some ''fetch failed''\<rparr>) None
     \<in> set (save_failed env_ok (post_as_alice hello) ''fetch failed'' False) \<and>
   authorization (post_as_alice hello) = Some ''Bearer alice-token'' \<and>
   getUser env_ok ''Bearer alice-token'' = Inr alice \<and>
   user_id hello_row = uid alice \<and>
   user_id (hello_row\<lparr>status := ''failed'', error_message := Some ''fetch failed''\<rparr>) =
     uid alice \<and>
   getUser env_ok ''Bearer expired'' = Inl ''invalid JWT'' \<and>
   save_failed env_ok
     \<lparr>http_method = ''POST'', authorization = Some ''Bearer expired'', json = Inr hello\<rparr>
     ''fetch failed'' False = [AuthGetUser ''Bearer expired''] \<and>
   filter is_insert
     (save_failed env_ok
        \<lparr>http_method = ''POST'', authorization = Some ''Bearer expired'', json = Inr hello\<rparr>
        ''fetch failed'' False) = []"
proof -
  let ?failed = "hello_row\<lparr>status := ''failed'', error_message := Some ''fetch failed''\<rparr>"
  let ?expired =
    "\<lparr>http_method = ''POST'', authorization = Some ''Bearer expired'', json = Inr hello\<rparr>"
  have a: "InsertSentEmail hello_row None \<in> set (effects env_ok (post_as_alice hello))"
    by (simp add: effects_def run_hello)
  have b: "InsertSentEmail ?failed None
             \<in> set (save_failed env_ok (post_as_alice hello) ''fetch failed'' False)"
    by (simp add: step_defs concrete_defs)
  have h: "authorization (post_as_alice hello) = Some ''Bearer alice-token''"
    by (simp add: post_as_alice_def)
  have g: "getUser env_ok ''Bearer alice-token'' = Inr alice"
    by (simp add: env_ok_def resolve_def)
  have x: "getUser env_ok ''Bearer expired'' = Inl ''invalid JWT''"
    by (simp add: env_ok_def resolve_def)
  have run: "save_failed env_ok ?expired ''fetch failed'' False = [AuthGetUser ''Bearer expired'']"
    by (simp add: save_failed_def env_ok_def resolve_def)
  from history_row_owner [where row = hello_row and res = None and e = env_ok
                            and req = "post_as_alice hello"] a h g
  have 1: "user_id hello_row = uid alice"
    by auto
  from history_row_owner [where row = ?failed and res = None and e = env_ok
                            and req = "post_as_alice hello" and msg = "''fetch failed''"
                            and used = False] b h g
  have 2: "user_id ?failed = uid alice"
    by auto
  from history_row_owner [where e = env_ok and req = ?expired and msg = "''fetch failed''"
                            and used = False] x
  have 3: "filter is_insert (save_failed env_ok ?expired ''fetch failed'' False) = []"
    by auto
  from a b h g x run 1 2 3 show ?thesis by blast
qed

end
